theory Spec2Isabelle
  imports Complex_Main "HOL-Library.Char_ord" "HOL-Library.List_Lexorder"
begin

section \<open>Strings and bytes\<close>

text \<open>
  The script \<^verbatim>\<open>scripts/create_sample_capsule.py\<close> fills one SQLite file with sample rows.
  Python \<^verbatim>\<open>str\<close> values are modelled as \<^typ>\<open>string\<close>: every text of the script is ASCII, and a
  \<^typ>\<open>char\<close> stands for a code point below 256. Python \<^verbatim>\<open>bytes\<close> are lists of \<^typ>\<open>char\<close> too,
  one per byte. \<^verbatim>\<open>str.encode()\<close> is UTF-8: a code point below 128 is one byte, one from
  128 to 255 is two bytes.
\<close>

type_synonym bytes = "char list"

fun utf8 :: "char \<Rightarrow> bytes" where
  "utf8 (Char b0 b1 b2 b3 b4 b5 b6 False) = [Char b0 b1 b2 b3 b4 b5 b6 False]"
| "utf8 (Char b0 b1 b2 b3 b4 b5 b6 True) =
     [Char b6 True False False False False True True, Char b0 b1 b2 b3 b4 b5 False True]"

definition encode :: "string \<Rightarrow> bytes" where
  "encode s = concat (map utf8 s)"

section \<open>hashlib.sha256\<close>

text \<open>
  SHA-256 as FIPS 180-4 defines it. A 32-bit word is a list of 32 bits, least significant
  bit first, so that the bitwise operations, the rotations and the addition modulo \<open>2^32\<close>
  are structural recursions that the simplifier evaluates on concrete messages.
\<close>

type_synonym u32 = "bool list"

fun xor32 :: "u32 \<Rightarrow> u32 \<Rightarrow> u32" where
  "xor32 (a # x) (b # y) = (a \<noteq> b) # xor32 x y"
| "xor32 _ _ = []"

fun and32 :: "u32 \<Rightarrow> u32 \<Rightarrow> u32" where
  "and32 (a # x) (b # y) = (a \<and> b) # and32 x y"
| "and32 _ _ = []"

definition not32 :: "u32 \<Rightarrow> u32" where
  "not32 x = map Not x"

fun add_carry :: "bool \<Rightarrow> u32 \<Rightarrow> u32 \<Rightarrow> u32" where
  "add_carry c (a # x) (b # y) =
     ((a \<noteq> b) \<noteq> c) # add_carry ((a \<and> b) \<or> (c \<and> (a \<noteq> b))) x y"
| "add_carry c _ _ = []"

definition add32 :: "u32 \<Rightarrow> u32 \<Rightarrow> u32" where
  "add32 x y = add_carry False x y"

definition rotr :: "nat \<Rightarrow> u32 \<Rightarrow> u32" where
  "rotr n x = drop n x @ take n x"

definition shr :: "nat \<Rightarrow> u32 \<Rightarrow> u32" where
  "shr n x = drop n x @ replicate n False"

definition bsig0 :: "u32 \<Rightarrow> u32" where
  "bsig0 x = xor32 (xor32 (rotr 2 x) (rotr 13 x)) (rotr 22 x)"

definition bsig1 :: "u32 \<Rightarrow> u32" where
  "bsig1 x = xor32 (xor32 (rotr 6 x) (rotr 11 x)) (rotr 25 x)"

definition ssig0 :: "u32 \<Rightarrow> u32" where
  "ssig0 x = xor32 (xor32 (rotr 7 x) (rotr 18 x)) (shr 3 x)"

definition ssig1 :: "u32 \<Rightarrow> u32" where
  "ssig1 x = xor32 (xor32 (rotr 17 x) (rotr 19 x)) (shr 10 x)"

definition ch :: "u32 \<Rightarrow> u32 \<Rightarrow> u32 \<Rightarrow> u32" where
  "ch x y z = xor32 (and32 x y) (and32 (not32 x) z)"

definition maj :: "u32 \<Rightarrow> u32 \<Rightarrow> u32 \<Rightarrow> u32" where
  "maj x y z = xor32 (xor32 (and32 x y) (and32 x z)) (and32 y z)"

text \<open>The four bits of a hexadecimal digit, least significant first.\<close>

definition hex_bits :: "char \<Rightarrow> bool list" where
  "hex_bits c =
     (if c = CHR ''0'' then [False, False, False, False]
      else if c = CHR ''1'' then [True, False, False, False]
      else if c = CHR ''2'' then [False, True, False, False]
      else if c = CHR ''3'' then [True, True, False, False]
      else if c = CHR ''4'' then [False, False, True, False]
      else if c = CHR ''5'' then [True, False, True, False]
      else if c = CHR ''6'' then [False, True, True, False]
      else if c = CHR ''7'' then [True, True, True, False]
      else if c = CHR ''8'' then [False, False, False, True]
      else if c = CHR ''9'' then [True, False, False, True]
      else if c = CHR ''a'' then [False, True, False, True]
      else if c = CHR ''b'' then [True, True, False, True]
      else if c = CHR ''c'' then [False, False, True, True]
      else if c = CHR ''d'' then [True, False, True, True]
      else if c = CHR ''e'' then [False, True, True, True]
      else [True, True, True, True])"

definition u32_of_hex :: "string \<Rightarrow> u32" where
  "u32_of_hex s = concat (map hex_bits (rev s))"

definition sha_K :: "u32 list" where
  "sha_K = map u32_of_hex
    [''428a2f98'', ''71374491'', ''b5c0fbcf'', ''e9b5dba5'',
     ''3956c25b'', ''59f111f1'', ''923f82a4'', ''ab1c5ed5'',
     ''d807aa98'', ''12835b01'', ''243185be'', ''550c7dc3'',
     ''72be5d74'', ''80deb1fe'', ''9bdc06a7'', ''c19bf174'',
     ''e49b69c1'', ''efbe4786'', ''0fc19dc6'', ''240ca1cc'',
     ''2de92c6f'', ''4a7484aa'', ''5cb0a9dc'', ''76f988da'',
     ''983e5152'', ''a831c66d'', ''b00327c8'', ''bf597fc7'',
     ''c6e00bf3'', ''d5a79147'', ''06ca6351'', ''14292967'',
     ''27b70a85'', ''2e1b2138'', ''4d2c6dfc'', ''53380d13'',
     ''650a7354'', ''766a0abb'', ''81c2c92e'', ''92722c85'',
     ''a2bfe8a1'', ''a81a664b'', ''c24b8b70'', ''c76c51a3'',
     ''d192e819'', ''d6990624'', ''f40e3585'', ''106aa070'',
     ''19a4c116'', ''1e376c08'', ''2748774c'', ''34b0bcb5'',
     ''391c0cb3'', ''4ed8aa4a'', ''5b9cca4f'', ''682e6ff3'',
     ''748f82ee'', ''78a5636f'', ''84c87814'', ''8cc70208'',
     ''90befffa'', ''a4506ceb'', ''bef9a3f7'', ''c67178f2'']"

definition sha_H0 :: "u32 list" where
  "sha_H0 = map u32_of_hex
    [''6a09e667'', ''bb67ae85'', ''3c6ef372'', ''a54ff53a'',
     ''510e527f'', ''9b05688c'', ''1f83d9ab'', ''5be0cd19'']"

fun byte_bits :: "char \<Rightarrow> bool list" where
  "byte_bits (Char b0 b1 b2 b3 b4 b5 b6 b7) = [b0, b1, b2, b3, b4, b5, b6, b7]"

text \<open>Four bytes, the most significant first, as one word.\<close>

definition be_word :: "char \<Rightarrow> char \<Rightarrow> char \<Rightarrow> char \<Rightarrow> u32" where
  "be_word a b c d = byte_bits d @ byte_bits c @ byte_bits b @ byte_bits a"

fun be_words :: "bytes \<Rightarrow> u32 list" where
  "be_words (a # b # c # d # r) = be_word a b c d # be_words r"
| "be_words _ = []"

text \<open>The \<open>k\<close> low bits of a number, least significant first.\<close>

fun to_bits :: "nat \<Rightarrow> nat \<Rightarrow> bool list" where
  "to_bits 0 n = []"
| "to_bits (Suc k) n = odd n # to_bits k (n div 2)"

text \<open>
  Padding: the message, the byte \<open>0x80\<close>, zero bytes up to 56 modulo 64, and the length
  of the message in bits as a 64-bit big-endian number (two words). \<open>n\<close> is the length
  of the message in bytes.
\<close>

definition pad_words :: "bytes \<Rightarrow> nat \<Rightarrow> u32 list" where
  "pad_words m n =
     be_words (m @ [CHR 0x80] @ replicate ((119 - n mod 64) mod 64) (CHR 0x00))
     @ [drop 32 (to_bits 64 (8 * n)), take 32 (to_bits 64 (8 * n))]"

definition sha_words :: "bytes \<Rightarrow> u32 list" where
  "sha_words m = pad_words m (length m)"

fun blocks16 :: "u32 list \<Rightarrow> u32 list list" where
  "blocks16 (w0 # w1 # w2 # w3 # w4 # w5 # w6 # w7 # w8 # w9 # w10 # w11 # w12 # w13 # w14 # w15 # r) =
     [w0, w1, w2, w3, w4, w5, w6, w7, w8, w9, w10, w11, w12, w13, w14, w15] # blocks16 r"
| "blocks16 _ = []"

text \<open>
  The message schedule: the sixteen words of the block, then one new word for each
  element of the first argument, each computed from the sixteen words before it.
\<close>

fun sched :: "'a list \<Rightarrow> u32 list \<Rightarrow> u32 list" where
  "sched (u # fuel) [w0, w1, w2, w3, w4, w5, w6, w7, w8, w9, w10, w11, w12, w13, w14, w15] =
     w0 # sched fuel [w1, w2, w3, w4, w5, w6, w7, w8, w9, w10, w11, w12, w13, w14, w15,
                      add32 (add32 (add32 (ssig1 w14) w9) (ssig0 w1)) w0]"
| "sched _ w = w"

fun mix :: "u32 list \<Rightarrow> u32 \<Rightarrow> u32 \<Rightarrow> u32 list" where
  "mix [a, b, c, d, e, f, g, h] t1 t2 = [add32 t1 t2, a, b, c, add32 d t1, e, f, g]"
| "mix s _ _ = s"

fun round_step :: "u32 list \<Rightarrow> u32 \<times> u32 \<Rightarrow> u32 list" where
  "round_step [a, b, c, d, e, f, g, h] (k, w) =
     mix [a, b, c, d, e, f, g, h]
       (add32 (add32 (add32 (add32 h (bsig1 e)) (ch e f g)) k) w)
       (add32 (bsig0 a) (maj a b c))"
| "round_step s _ = s"

definition compress :: "u32 list \<Rightarrow> u32 list \<Rightarrow> u32 list \<Rightarrow> u32 list" where
  "compress ks hs blk =
     map2 add32 hs (foldl round_step hs (zip ks (sched (drop 16 ks) blk)))"

definition sha256 :: "bytes \<Rightarrow> u32 list" where
  "sha256 m = foldl (compress sha_K) sha_H0 (blocks16 (sha_words m))"

text \<open>The hexadecimal digits of a word, the most significant first.\<close>

fun nibbles :: "bool list \<Rightarrow> nat list" where
  "nibbles (b0 # b1 # b2 # b3 # r) =
     nibbles r @ [of_bool b0 + 2 * of_bool b1 + 4 * of_bool b2 + 8 * of_bool b3]"
| "nibbles _ = []"

definition hex_digit :: "nat \<Rightarrow> char" where
  "hex_digit n = ''0123456789abcdef'' ! n"

text \<open>\<^verbatim>\<open>hashlib.sha256(m).hexdigest()\<close>\<close>

definition hexdigest :: "bytes \<Rightarrow> string" where
  "hexdigest m = concat (map (\<lambda>w. map hex_digit (nibbles w)) (sha256 m))"

section \<open>Python built-ins and library calls\<close>

datatype error = IntegrityError | ValueError

text \<open>\<^verbatim>\<open>str(n)\<close> of a natural number and of an \<^verbatim>\<open>int\<close>.\<close>

definition digit_char :: "nat \<Rightarrow> char" where
  "digit_char n = ''0123456789'' ! n"

fun dec :: "nat \<Rightarrow> string" where
  "dec n = (if n < 10 then [digit_char n] else dec (n div 10) @ [digit_char (n mod 10)])"

declare dec.simps [simp del]

definition str_int :: "int \<Rightarrow> string" where
  "str_int i = (if i < 0 then ''-'' @ dec (nat (- i)) else dec (nat i))"

text \<open>
  The format specification \<^verbatim>\<open>{n:04d}\<close>: decimal, padded with zeros after the sign to four
  characters in all.
\<close>

definition zfill :: "nat \<Rightarrow> string \<Rightarrow> string" where
  "zfill w s = replicate (w - length s) (CHR ''0'') @ s"

definition format_04d :: "int \<Rightarrow> string" where
  "format_04d i = (if i < 0 then ''-'' @ zfill 3 (dec (nat (- i))) else zfill 4 (dec (nat i)))"

text \<open>
  \<^verbatim>\<open>json.dumps\<close> with its defaults (\<^verbatim>\<open>ensure_ascii\<close>, separators \<^verbatim>\<open>", "\<close> and \<^verbatim>\<open>": "\<close>) on the
  values the script passes: strings, lists, and dictionaries in insertion order.
\<close>

datatype json = JStr string | JList "json list" | JDict "(string \<times> json) list"

definition hex4 :: "nat \<Rightarrow> string" where
  "hex4 n = [hex_digit (n div 4096 mod 16), hex_digit (n div 256 mod 16),
             hex_digit (n div 16 mod 16), hex_digit (n mod 16)]"

definition json_escape :: "char \<Rightarrow> string" where
  "json_escape c =
     (if c = CHR 0x22 then [CHR 0x5C, CHR 0x22]
      else if c = CHR 0x5C then [CHR 0x5C, CHR 0x5C]
      else if c = CHR 0x0A then [CHR 0x5C, CHR ''n'']
      else if c = CHR 0x0D then [CHR 0x5C, CHR ''r'']
      else if c = CHR 0x09 then [CHR 0x5C, CHR ''t'']
      else if c = CHR 0x08 then [CHR 0x5C, CHR ''b'']
      else if c = CHR 0x0C then [CHR 0x5C, CHR ''f'']
      else if (of_char c :: nat) < 32 \<or> 126 < (of_char c :: nat)
        then [CHR 0x5C, CHR ''u''] @ hex4 (of_char c)
      else [c])"

definition json_quote :: "string \<Rightarrow> string" where
  "json_quote s = [CHR 0x22] @ concat (map json_escape s) @ [CHR 0x22]"

fun join :: "string \<Rightarrow> string list \<Rightarrow> string" where
  "join sep [] = []"
| "join sep [x] = x"
| "join sep (x # y # r) = x @ sep @ join sep (y # r)"

primrec json_dumps :: "json \<Rightarrow> string" where
  "json_dumps (JStr s) = json_quote s"
| "json_dumps (JList xs) = ''['' @ join '', '' (map json_dumps xs) @ '']''"
| "json_dumps (JDict kvs) =
     ''{'' @ join '', '' (map (\<lambda>(k, v). json_quote k @ '': '' @ v)
                            (map (map_prod id json_dumps) kvs)) @ ''}''"

text \<open>
  \<^verbatim>\<open>datetime.now(timezone.utc)\<close>: the script reads two things from a clock reading, its
  \<^verbatim>\<open>isoformat()\<close> and \<^verbatim>\<open>int(timestamp())\<close>. The clock is a parameter of the model:
  \<open>clk k\<close> is what the \<open>k\<close>-th call of \<^verbatim>\<open>datetime.now\<close> returns, counting from 0.
\<close>

record datetime =
  isoformat :: string
  timestamp :: int

type_synonym clock = "int \<Rightarrow> datetime"

text \<open>
  The module \<^verbatim>\<open>random\<close> and \<^verbatim>\<open>struct.pack\<close> are parameters too: \<open>rnd_seed\<close> is the state of the
  global generator after \<^verbatim>\<open>random.seed(n)\<close>, \<open>rnd_uniform\<close> is one call of
  \<^verbatim>\<open>random.uniform(-1, 1)\<close> (the float drawn and the next state), and \<open>pack_f\<close> is
  \<^verbatim>\<open>struct.pack('f', x)\<close>. \<open>'g\<close> is the type of generator states, \<open>'f\<close> that of floats.
\<close>

record ('g, 'f) py_random =
  rnd_seed :: "int \<Rightarrow> 'g"
  rnd_uniform :: "'g \<Rightarrow> 'f \<times> 'g"
  pack_f :: "'f \<Rightarrow> bytes"

text \<open>\<^verbatim>\<open>int(s, 16)\<close> on a string of hexadecimal digits; anything else is a \<^verbatim>\<open>ValueError\<close>.\<close>

definition hex_value :: "char \<Rightarrow> nat option" where
  "hex_value c =
     (let n = (of_char c :: nat) in
      if 48 \<le> n \<and> n \<le> 57 then Some (n - 48)
      else if 97 \<le> n \<and> n \<le> 102 then Some (n - 87)
      else if 65 \<le> n \<and> n \<le> 70 then Some (n - 55)
      else None)"

fun int_of_hex_acc :: "string \<Rightarrow> int \<Rightarrow> error + int" where
  "int_of_hex_acc [] a = Inr a"
| "int_of_hex_acc (c # cs) a =
     (case hex_value c of None \<Rightarrow> Inl ValueError
      | Some v \<Rightarrow> int_of_hex_acc cs (16 * a + int v))"

definition int_of_hex :: "string \<Rightarrow> error + int" where
  "int_of_hex s = (if s = [] then Inl ValueError else int_of_hex_acc s 0)"

section \<open>The module's data\<close>

record page =
  page_no :: int
  title :: string
  full_text :: string
  entities :: "(string \<times> string \<times> string) list"

definition full_text_1 :: string where
  "full_text_1 =
       ''MemGlyph is a system for creating portable, verifiable, and queryable knowledge artifacts.\<newline>''
     @ ''        Each MemGlyph artifact is a self-contained file that bundles its own metadata, semantic structure,\<newline>''
     @ ''        and cryptographic proof of its contents and history. The system enables offline hybrid search\<newline>''
     @ ''        combining keyword, semantic, and graph-based retrieval directly within the artifact itself.''"

definition full_text_2 :: string where
  "full_text_2 =
       ''LEANN (Lightweight Embedding Adaptive Neural Network) is MemGlyph's vector strategy.\<newline>''
     @ ''        Instead of storing full 1024-dimension vectors, LEANN stores semantic hints or seeds.\<newline>''
     @ ''        These seeds enable on-demand regeneration of embeddings, achieving 98.5% storage savings\<newline>''
     @ ''        while maintaining semantic search capabilities. LEANN allows model upgrades without rewriting artifacts.''"

definition full_text_3 :: string where
  "full_text_3 =
       ''A GlyphCase is a SQLite-based container using SQLAR format for archival storage.\<newline>''
     @ ''        The sqlar table contains byte-for-byte representation of the source corpus, while accelerator\<newline>''
     @ ''        tables provide fast queries. All accelerators are rebuildable from the canonical sqlar data.\<newline>''
     @ ''        This enables atomic operations and efficient distribution of large document collections.''"

definition full_text_4 :: string where
  "full_text_4 =
       ''MemGlyph uses SQLite's FTS5 extension for keyword search with BM25 ranking.\<newline>''
     @ ''        The meta_fts virtual table indexes page titles, tags, entities, and full text content.\<newline>''
     @ ''        FTS5 provides fast filtering to 100-200 candidates before semantic reranking.\<newline>''
     @ ''        Snippet generation highlights matching terms with configurable context windows.''"

definition full_text_5 :: string where
  "full_text_5 =
       ''MemGlyph extracts named entities using Google LangExtract. Entities include organizations,\<newline>''
     @ ''        dates, locations, and technical terms. Normalized values enable faceted search and entity-based\<newline>''
     @ ''        retrieval boosting. Cross-document entity linking tracks entity occurrences across the corpus\<newline>''
     @ ''        with Wikidata QID references where available.''"

definition full_text_6 :: string where
  "full_text_6 =
       ''The node_index and edges tables enable graph traversal queries. Predicates like cites,\<newline>''
     @ ''        part_of, and caption_of represent semantic relationships between pages and regions.\<newline>''
     @ ''        BFS traversal finds connected content within N hops. Graph expansion augments keyword\<newline>''
     @ ''        and semantic results with relationship-based discovery.''"

definition full_text_7 :: string where
  "full_text_7 =
       ''MemGlyph combines multiple retrieval signals in a fusion ranking system.\<newline>''
     @ ''        FTS5 provides keyword filtering (35% weight), vector search adds semantic understanding (40% weight),\<newline>''
     @ ''        entity matching contributes structured boosting (25% weight), and graph expansion discovers\<newline>''
     @ ''        related content. This hybrid approach outperforms single-method retrieval.''"

definition full_text_8 :: string where
  "full_text_8 =
       ''Every MemGlyph artifact includes cryptographic verification. Content hashes (SHA256) anchor\<newline>''
     @ ''        regions to prevent tampering. The ledger tracks all operations with timestamps and signatures.\<newline>''
     @ ''        Merkle checkpoints create temporal snapshots. Ed25519 signatures prove authorship.\<newline>''
     @ ''        External anchors on Ethereum or IPFS provide additional trust.''"

definition page_1 :: page where
  "page_1 =
     \<lparr>page_no = 1,
      title = ''MemGlyph Universal Specification Overview'',
      full_text = full_text_1,
      entities =
       [(''TECH'', ''MemGlyph'', ''MemGlyph''),
        (''TECH'', ''hybrid search'', ''hybrid search'')]\<rparr>"

definition page_2 :: page where
  "page_2 =
     \<lparr>page_no = 2,
      title = ''LEANN: Lightweight Embedding Strategy'',
      full_text = full_text_2,
      entities =
       [(''TECH'', ''LEANN'', ''LEANN''),
        (''PERCENT'', ''98.5%'', ''0.985''),
        (''TECH'', ''semantic search'', ''semantic search'')]\<rparr>"

definition page_3 :: page where
  "page_3 =
     \<lparr>page_no = 3,
      title = ''GlyphCase Modality'',
      full_text = full_text_3,
      entities =
       [(''TECH'', ''GlyphCase'', ''GlyphCase''),
        (''TECH'', ''SQLite'', ''SQLite''),
        (''TECH'', ''SQLAR'', ''SQLAR'')]\<rparr>"

definition page_4 :: page where
  "page_4 =
     \<lparr>page_no = 4,
      title = ''FTS5 Full-Text Search'',
      full_text = full_text_4,
      entities =
       [(''TECH'', ''FTS5'', ''FTS5''),
        (''TECH'', ''BM25'', ''BM25''),
        (''TECH'', ''SQLite'', ''SQLite'')]\<rparr>"

definition page_5 :: page where
  "page_5 =
     \<lparr>page_no = 5,
      title = ''Entity Extraction and Normalization'',
      full_text = full_text_5,
      entities =
       [(''TECH'', ''LangExtract'', ''Google LangExtract''),
        (''ORG'', ''Google'', ''Google LLC''),
        (''TECH'', ''Wikidata'', ''Wikidata'')]\<rparr>"

definition page_6 :: page where
  "page_6 =
     \<lparr>page_no = 6,
      title = ''Graph-Based Retrieval'',
      full_text = full_text_6,
      entities =
       [(''TECH'', ''BFS'', ''breadth-first search''),
        (''TECH'', ''graph traversal'', ''graph traversal'')]\<rparr>"

definition page_7 :: page where
  "page_7 =
     \<lparr>page_no = 7,
      title = ''Hybrid Retrieval Architecture'',
      full_text = full_text_7,
      entities =
       [(''PERCENT'', ''35%'', ''0.35''),
        (''PERCENT'', ''40%'', ''0.40''),
        (''PERCENT'', ''25%'', ''0.25''),
        (''TECH'', ''hybrid retrieval'', ''hybrid retrieval'')]\<rparr>"

definition page_8 :: page where
  "page_8 =
     \<lparr>page_no = 8,
      title = ''Verification and Provenance'',
      full_text = full_text_8,
      entities =
       [(''TECH'', ''SHA256'', ''SHA-256''),
        (''TECH'', ''Merkle'', ''Merkle tree''),
        (''TECH'', ''Ed25519'', ''Ed25519''),
        (''TECH'', ''Ethereum'', ''Ethereum''),
        (''TECH'', ''IPFS'', ''IPFS'')]\<rparr>"

definition PAGES :: "page list" where
  "PAGES = [page_1, page_2, page_3, page_4, page_5, page_6, page_7, page_8]"

definition EDGES :: "(int \<times> int \<times> string \<times> real) list" where
  "EDGES =
   [(1, 2, ''cites'', 0.9),
    (1, 3, ''cites'', 0.85),
    (1, 7, ''part_of'', 1.0),
    (2, 7, ''cites'', 0.8),
    (3, 4, ''cites'', 0.75),
    (4, 7, ''cites'', 0.9),
    (5, 7, ''cites'', 0.85),
    (6, 7, ''cites'', 0.8),
    (7, 2, ''cites'', 0.9),
    (7, 4, ''cites'', 0.85),
    (8, 1, ''part_of'', 0.95)]"

definition DOC_ID :: string where
  "DOC_ID = ''sha256:memglyph_demo_'' @ take 16 (hexdigest ''memglyph_sample_capsule'')"

section \<open>create_mock_png and mock_vector_384d\<close>

text \<open>The bytes of \<^verbatim>\<open>bytes.fromhex(...)\<close>, in the groups of the source.\<close>

definition create_mock_png :: "int \<Rightarrow> string \<Rightarrow> bytes" where
  "create_mock_png n t =
     [CHR 0x89, CHR 0x50, CHR 0x4e, CHR 0x47, CHR 0x0d, CHR 0x0a, CHR 0x1a, CHR 0x0a]
   @ [CHR 0x00, CHR 0x00, CHR 0x00, CHR 0x0d, CHR 0x49, CHR 0x48, CHR 0x44, CHR 0x52]
   @ [CHR 0x00, CHR 0x00, CHR 0x00, CHR 0x01, CHR 0x00, CHR 0x00, CHR 0x00, CHR 0x01]
   @ [CHR 0x08, CHR 0x02, CHR 0x00, CHR 0x00, CHR 0x00, CHR 0x90, CHR 0x77, CHR 0x53]
   @ [CHR 0xde]
   @ [CHR 0x00, CHR 0x00, CHR 0x00, CHR 0x0c, CHR 0x49, CHR 0x44, CHR 0x41, CHR 0x54]
   @ [CHR 0x08, CHR 0x99, CHR 0x51, CHR 0x63, CHR 0x00, CHR 0x00, CHR 0x00]
   @ [CHR 0x02, CHR 0x00, CHR 0x01, CHR 0x32, CHR 0x26, CHR 0x78, CHR 0x0a]
   @ [CHR 0x00, CHR 0x00, CHR 0x00, CHR 0x00, CHR 0x49, CHR 0x45, CHR 0x4e, CHR 0x44]
   @ [CHR 0xae, CHR 0x42, CHR 0x60, CHR 0x82]"

text \<open>\<open>n\<close> calls of \<^verbatim>\<open>random.uniform(-1, 1)\<close>, in order.\<close>

primrec draws :: "('g, 'f) py_random \<Rightarrow> nat \<Rightarrow> 'g \<Rightarrow> 'f list \<times> 'g" where
  "draws L 0 g = ([], g)"
| "draws L (Suc n) g =
     (let r = rnd_uniform L g; rest = draws L n (snd r) in (fst r # fst rest, snd rest))"

text \<open>
  The result is the packed vector and the state the call leaves the global generator in;
  \<open>g\<close> is the state it finds, which \<^verbatim>\<open>random.seed(seed)\<close> overwrites.
\<close>

definition mock_vector_384d ::
  "('g, 'f) py_random \<Rightarrow> string \<Rightarrow> 'g \<Rightarrow> error + (bytes \<times> 'g)" where
  "mock_vector_384d L text g =
     (case int_of_hex (take 8 (hexdigest (encode text))) of
        Inl e \<Rightarrow> Inl e
      | Inr seed \<Rightarrow>
          (let vector = draws L 384 (rnd_seed L seed)
           in Inr (concat (map (pack_f L) (fst vector)), snd vector)))"

section \<open>The tables\<close>

text \<open>
  One record per table, a field per column, and a table is the list of its rows in the
  order of insertion. A column that the script leaves \<^verbatim>\<open>NULL\<close> is an \<open>option\<close>.
\<close>

record sqlar_row =
  ar_name :: string
  ar_mode :: int
  ar_mtime :: int
  ar_sz :: int
  ar_data :: bytes

record ledger_block =
  blk_block_id :: string
  blk_ts :: string
  blk_prev :: string
  blk_entries_json :: string
  blk_signer :: string
  blk_sig :: string
  blk_anchors_json :: string

record checkpoint =
  cp_epoch :: string
  cp_merkle_root :: string
  cp_pages_count :: int
  cp_anchors_json :: string
  cp_created_ts :: string

record key_row =
  key_id :: string
  key_did :: string
  key_did_document :: string
  key_valid_from :: string
  key_valid_until :: "string option"
  key_revoked :: int

record node_row =
  node_id :: int
  node_gid :: string
  node_doc_id :: string
  node_page_no :: int

record edge_row =
  fromNode :: int
  toNode :: int
  pred :: string
  weight :: real
  edge_ts :: string
  evidence :: "string option"

record meta_row =
  meta_gid :: string
  meta_doc_id :: string
  meta_page_no :: int
  meta_title :: string
  meta_tags :: string
  meta_entities :: string
  meta_full_text :: string
  meta_updated_ts :: string

record entity_row =
  ent_gid :: string
  entity_type :: string
  entity_text :: string
  normalized_value :: string
  confidence :: real
  start_offset :: "int option"
  end_offset :: "int option"

record leann_meta_row =
  lm_gid :: string
  lm_model_id :: string
  lm_scope :: string
  lm_region_id :: "string option"
  lm_doc_id :: string
  lm_page_no :: int
  lm_dim :: int
  lm_quant :: string
  lm_content_sha :: string
  lm_text_extraction :: string
  lm_normalization :: string
  lm_updated_utc :: string
  lm_recompute :: int

record leann_vec_row =
  lv_gid :: string
  lv_model_id :: string
  lv_embedding :: bytes
  lv_cached_ts :: string

record neighbor_row =
  nb_gid :: string
  nb_neighbor :: string
  nb_score :: real
  nb_reason :: string

record receipt_row =
  rc_gid :: string
  rc_content_sha :: string
  rc_signer :: string
  rc_sig :: string
  rc_ts :: string
  rc_epoch :: string
  rc_merkle_root :: string
  rc_merkle_path :: "string option"
  rc_anchors_json :: string

text \<open>
  The state of a run: the tables, the number of clock readings taken so far, and the state
  of the global random generator.
\<close>

record 'g capsule =
  sqlar :: "sqlar_row list"
  ledger_blocks :: "ledger_block list"
  checkpoints :: "checkpoint list"
  keys :: "key_row list"
  node_index :: "node_row list"
  edges :: "edge_row list"
  meta_index :: "meta_row list"
  entities_table :: "entity_row list"
  leann_meta :: "leann_meta_row list"
  leann_vec :: "leann_vec_row list"
  leann_neighbors :: "neighbor_row list"
  glyph_receipts :: "receipt_row list"
  tick :: int
  rng :: 'g

text \<open>The database file does not exist before the run: every table starts empty.\<close>

definition empty_capsule :: "'g \<Rightarrow> 'g capsule" where
  "empty_capsule g =
     \<lparr>sqlar = [], ledger_blocks = [], checkpoints = [], keys = [], node_index = [],
      edges = [], meta_index = [], entities_table = [], leann_meta = [], leann_vec = [],
      leann_neighbors = [], glyph_receipts = [], tick = 0, rng = g\<rparr>"

text \<open>
  \<^verbatim>\<open>INSERT\<close> into a table with a \<^verbatim>\<open>PRIMARY KEY\<close> or \<^verbatim>\<open>UNIQUE\<close> constraint on the columns \<open>key\<close>:
  a row whose key is in the table raises \<^verbatim>\<open>sqlite3.IntegrityError\<close>, which the script does not
  catch. \<^verbatim>\<open>INSERT OR IGNORE\<close> drops such a row.
\<close>

definition insert_row :: "('r \<Rightarrow> 'k) \<Rightarrow> 'r \<Rightarrow> 'r list \<Rightarrow> error + 'r list" where
  "insert_row key r tbl =
     (if key r \<in> set (map key tbl) then Inl IntegrityError else Inr (tbl @ [r]))"

definition insert_or_ignore :: "('r \<Rightarrow> 'k) \<Rightarrow> 'r \<Rightarrow> 'r list \<Rightarrow> 'r list" where
  "insert_or_ignore key r tbl = (if key r \<in> set (map key tbl) then tbl else tbl @ [r])"

text \<open>A \<^verbatim>\<open>for\<close> loop whose body may raise: the first error ends the run.\<close>

fun for_each :: "('a \<Rightarrow> 's \<Rightarrow> error + 's) \<Rightarrow> 'a list \<Rightarrow> 's \<Rightarrow> error + 's" where
  "for_each body [] s = Inr s"
| "for_each body (x # xs) s =
     (case body x s of Inl e \<Rightarrow> Inl e | Inr s' \<Rightarrow> for_each body xs s')"

section \<open>create_capsule\<close>

definition gid_of :: "int \<Rightarrow> string" where
  "gid_of n = DOC_ID @ ''#p'' @ str_int n"

definition content_sha_of :: "page \<Rightarrow> string" where
  "content_sha_of p = hexdigest (encode (full_text p))"

definition signer_did :: string where
  "signer_did = ''did:key:z6MkhaXgBZDvotDkL5257faiztiGiC2QtKLGpbnnEGta2doK''"

subsection \<open>Canonical archive\<close>

text \<open>
  Each \<^verbatim>\<open>INSERT\<close> is modelled in two parts: the row the statement binds (a function of the
  clock reading \<open>t\<close> it is built at) and the insertion, which reads the clock at \<open>tick s\<close>.
\<close>

definition image_row :: "clock \<Rightarrow> int \<Rightarrow> page \<Rightarrow> sqlar_row" where
  "image_row clk t p =
     (let png_data = create_mock_png (page_no p) (title p);
          filename = ''glyphs/page_'' @ format_04d (page_no p) @ ''.mgx.png'';
          mtime = timestamp (clk t)
      in \<lparr>ar_name = filename, ar_mode = 33188, ar_mtime = mtime,
          ar_sz = int (length png_data), ar_data = png_data\<rparr>)"

definition add_page_image :: "clock \<Rightarrow> page \<Rightarrow> 'g capsule \<Rightarrow> error + 'g capsule" where
  "add_page_image clk p s =
     map_sum id (\<lambda>tbl. s\<lparr>sqlar := tbl, tick := tick s + 1\<rparr>)
       (insert_row ar_name (image_row clk (tick s) p) (sqlar s))"

text \<open>The clock is read once for the content of the ledger file and once more for its \<^verbatim>\<open>mtime\<close>.\<close>

definition ledger_file_row :: "clock \<Rightarrow> int \<Rightarrow> sqlar_row" where
  "ledger_file_row clk t =
     (let ledger_content =
            encode (json_dumps (JDict
              [(''format'', JStr ''memglyph-ledger-v1''),
               (''created'', JStr (isoformat (clk t)))]))
      in \<lparr>ar_name = ''ledger/ledger.log'', ar_mode = 33188,
          ar_mtime = timestamp (clk (t + 1)),
          ar_sz = int (length ledger_content), ar_data = ledger_content\<rparr>)"

definition add_ledger_file :: "clock \<Rightarrow> 'g capsule \<Rightarrow> error + 'g capsule" where
  "add_ledger_file clk s =
     map_sum id (\<lambda>tbl. s\<lparr>sqlar := tbl, tick := tick s + 2\<rparr>)
       (insert_row ar_name (ledger_file_row clk (tick s)) (sqlar s))"

subsection \<open>Ledger, checkpoints and keys\<close>

text \<open>
  The entries of the block: \<^verbatim>\<open>for i in range(1, len(PAGES) + 1)\<close>, each read from
  \<^verbatim>\<open>PAGES[i-1]\<close>, an index that is always in range.
\<close>

definition ledger_entry :: "nat \<Rightarrow> json" where
  "ledger_entry i =
     JDict [(''op'', JStr ''ADD''),
            (''gid'', JStr (DOC_ID @ ''#p'' @ str_int (int i))),
            (''content_sha'', JStr (hexdigest (encode (full_text (PAGES ! (i - 1)))))),
            (''metadata'', JDict [(''title'', JStr (title (PAGES ! (i - 1))))])]"

definition ledger_entries :: "json" where
  "ledger_entries = JList (map ledger_entry [1..<length PAGES + 1])"

definition ledger_block_row :: "clock \<Rightarrow> int \<Rightarrow> ledger_block" where
  "ledger_block_row clk t =
     \<lparr>blk_block_id = ''b001'',
      blk_ts = isoformat (clk t),
      blk_prev = ''genesis'',
      blk_entries_json = json_dumps ledger_entries,
      blk_signer = signer_did,
      blk_sig = ''ed25519:mock_signature_'' @ take 32 (hexdigest ''demo''),
      blk_anchors_json = json_dumps (JList [JStr ''ipfs:QmDemo123''])\<rparr>"

definition add_ledger_block :: "clock \<Rightarrow> 'g capsule \<Rightarrow> error + 'g capsule" where
  "add_ledger_block clk s =
     map_sum id (\<lambda>tbl. s\<lparr>ledger_blocks := tbl, tick := tick s + 1\<rparr>)
       (insert_row blk_block_id (ledger_block_row clk (tick s)) (ledger_blocks s))"

definition checkpoint_row :: "clock \<Rightarrow> int \<Rightarrow> checkpoint" where
  "checkpoint_row clk t =
     \<lparr>cp_epoch = isoformat (clk t),
      cp_merkle_root = hexdigest ''checkpoint_demo'',
      cp_pages_count = int (length PAGES),
      cp_anchors_json = json_dumps (JList [JStr ''ipfs:QmCheckpoint123'']),
      cp_created_ts = isoformat (clk (t + 1))\<rparr>"

definition add_checkpoint :: "clock \<Rightarrow> 'g capsule \<Rightarrow> error + 'g capsule" where
  "add_checkpoint clk s =
     map_sum id (\<lambda>tbl. s\<lparr>checkpoints := tbl, tick := tick s + 2\<rparr>)
       (insert_row cp_epoch (checkpoint_row clk (tick s)) (checkpoints s))"

definition key_row_of :: "clock \<Rightarrow> int \<Rightarrow> key_row" where
  "key_row_of clk t =
     \<lparr>key_id = ''key001'',
      key_did = signer_did,
      key_did_document = json_dumps (JDict
        [(''@context'', JStr ''https://w3id.org/did/v1''), (''id'', JStr ''did:key:z6Mk...'')]),
      key_valid_from = isoformat (clk t),
      key_valid_until = None,
      key_revoked = 0\<rparr>"

definition add_key :: "clock \<Rightarrow> 'g capsule \<Rightarrow> error + 'g capsule" where
  "add_key clk s =
     map_sum id (\<lambda>tbl. s\<lparr>keys := tbl, tick := tick s + 1\<rparr>)
       (insert_row key_id (key_row_of clk (tick s)) (keys s))"

subsection \<open>Graph\<close>

text \<open>\<^verbatim>\<open>node_id\<close> is \<^verbatim>\<open>AUTOINCREMENT\<close>: one more than the rows before it, in a new table.\<close>

definition node_row_of :: "int \<Rightarrow> page \<Rightarrow> node_row" where
  "node_row_of n p =
     \<lparr>node_id = n, node_gid = gid_of (page_no p), node_doc_id = DOC_ID,
      node_page_no = page_no p\<rparr>"

definition add_node :: "page \<Rightarrow> 'g capsule \<Rightarrow> error + 'g capsule" where
  "add_node p s =
     map_sum id (\<lambda>tbl. s\<lparr>node_index := tbl\<rparr>)
       (insert_row node_gid (node_row_of (int (length (node_index s)) + 1) p) (node_index s))"

definition edge_row_of :: "clock \<Rightarrow> int \<Rightarrow> int \<times> int \<times> string \<times> real \<Rightarrow> edge_row" where
  "edge_row_of clk t e =
     (case e of (from_page, to_page, prd, w) \<Rightarrow>
        \<lparr>fromNode = from_page, toNode = to_page, pred = prd, weight = w,
         edge_ts = isoformat (clk t), evidence = None\<rparr>)"

definition add_edge ::
  "clock \<Rightarrow> int \<times> int \<times> string \<times> real \<Rightarrow> 'g capsule \<Rightarrow> error + 'g capsule" where
  "add_edge clk e s =
     map_sum id (\<lambda>tbl. s\<lparr>edges := tbl, tick := tick s + 1\<rparr>)
       (insert_row (\<lambda>r. (fromNode r, toNode r, pred r)) (edge_row_of clk (tick s) e) (edges s))"

subsection \<open>Metadata and entities\<close>

definition meta_row_of :: "clock \<Rightarrow> int \<Rightarrow> page \<Rightarrow> meta_row" where
  "meta_row_of clk t p =
     \<lparr>meta_gid = gid_of (page_no p),
      meta_doc_id = DOC_ID,
      meta_page_no = page_no p,
      meta_title = title p,
      meta_tags = ''memglyph demo documentation'',
      meta_entities = json_dumps (JList (map (\<lambda>e. JStr (fst (snd e))) (entities p))),
      meta_full_text = full_text p,
      meta_updated_ts = isoformat (clk t)\<rparr>"

definition add_meta :: "clock \<Rightarrow> page \<Rightarrow> 'g capsule \<Rightarrow> error + 'g capsule" where
  "add_meta clk p s =
     map_sum id (\<lambda>tbl. s\<lparr>meta_index := tbl, tick := tick s + 1\<rparr>)
       (insert_row meta_gid (meta_row_of clk (tick s) p) (meta_index s))"

definition entity_row_of :: "string \<Rightarrow> string \<times> string \<times> string \<Rightarrow> entity_row" where
  "entity_row_of gid e =
     (case e of (etype, etext, nval) \<Rightarrow>
        \<lparr>ent_gid = gid, entity_type = etype, entity_text = etext,
         normalized_value = nval, confidence = 0.95,
         start_offset = None, end_offset = None\<rparr>)"

definition add_entity ::
  "string \<Rightarrow> string \<times> string \<times> string \<Rightarrow> 'g capsule \<Rightarrow> error + 'g capsule" where
  "add_entity gid e s =
     map_sum id (\<lambda>tbl. s\<lparr>entities_table := tbl\<rparr>)
       (insert_row (\<lambda>r. (ent_gid r, entity_type r, entity_text r))
          (entity_row_of gid e) (entities_table s))"

definition add_page_entities :: "page \<Rightarrow> 'g capsule \<Rightarrow> error + 'g capsule" where
  "add_page_entities p s = for_each (add_entity (gid_of (page_no p))) (entities p) s"

subsection \<open>Vector metadata, cached vectors and neighbour hints\<close>

definition model_id :: string where
  "model_id = ''gte-small-384''"

definition leann_meta_row_of :: "clock \<Rightarrow> int \<Rightarrow> page \<Rightarrow> leann_meta_row" where
  "leann_meta_row_of clk t p =
     \<lparr>lm_gid = gid_of (page_no p), lm_model_id = model_id, lm_scope = ''page'',
      lm_region_id = None, lm_doc_id = DOC_ID, lm_page_no = page_no p, lm_dim = 384,
      lm_quant = ''float32'', lm_content_sha = content_sha_of p,
      lm_text_extraction = ''native'', lm_normalization = ''unicode-nfkc'',
      lm_updated_utc = isoformat (clk t), lm_recompute = 0\<rparr>"

definition add_leann_meta :: "clock \<Rightarrow> page \<Rightarrow> 'g capsule \<Rightarrow> error + 'g capsule" where
  "add_leann_meta clk p s =
     map_sum id (\<lambda>tbl. s\<lparr>leann_meta := tbl, tick := tick s + 1\<rparr>)
       (insert_row (\<lambda>r. (lm_gid r, lm_model_id r)) (leann_meta_row_of clk (tick s) p)
          (leann_meta s))"

definition leann_vec_row_of :: "clock \<Rightarrow> int \<Rightarrow> page \<Rightarrow> bytes \<Rightarrow> leann_vec_row" where
  "leann_vec_row_of clk t p vector_blob =
     \<lparr>lv_gid = gid_of (page_no p), lv_model_id = model_id,
      lv_embedding = vector_blob, lv_cached_ts = isoformat (clk t)\<rparr>"

definition add_leann_vec ::
  "('g, 'f) py_random \<Rightarrow> clock \<Rightarrow> page \<Rightarrow> 'g capsule \<Rightarrow> error + 'g capsule" where
  "add_leann_vec L clk p s =
     (case mock_vector_384d L (full_text p) (rng s) of
        Inl e \<Rightarrow> Inl e
      | Inr v \<Rightarrow>
          map_sum id (\<lambda>tbl. s\<lparr>leann_vec := tbl, tick := tick s + 1, rng := snd v\<rparr>)
            (insert_row (\<lambda>r. (lv_gid r, lv_model_id r))
               (leann_vec_row_of clk (tick s) p (fst v)) (leann_vec s)))"

definition neighbor_row_of :: "int \<times> int \<times> string \<times> real \<Rightarrow> neighbor_row" where
  "neighbor_row_of e =
     (case e of (from_page, to_page, prd, w) \<Rightarrow>
        \<lparr>nb_gid = gid_of from_page, nb_neighbor = gid_of to_page,
         nb_score = w, nb_reason = ''graph-'' @ prd\<rparr>)"

definition add_neighbor ::
  "int \<times> int \<times> string \<times> real \<Rightarrow> 'g capsule \<Rightarrow> error + 'g capsule" where
  "add_neighbor e s =
     Inr (s\<lparr>leann_neighbors :=
            insert_or_ignore (\<lambda>r. (nb_gid r, nb_neighbor r)) (neighbor_row_of e)
              (leann_neighbors s)\<rparr>)"

subsection \<open>Receipts\<close>

text \<open>
  \<^verbatim>\<open>epoch\<close> and \<^verbatim>\<open>merkle_root\<close> are computed once, before the loop; the clock is read again
  for the \<^verbatim>\<open>ts\<close> of each receipt.
\<close>

definition receipt_row_of :: "clock \<Rightarrow> int \<Rightarrow> string \<Rightarrow> string \<Rightarrow> page \<Rightarrow> receipt_row" where
  "receipt_row_of clk t epoch merkle_root p =
     (let gid = gid_of (page_no p); content_sha = content_sha_of p
      in \<lparr>rc_gid = gid, rc_content_sha = content_sha, rc_signer = signer_did,
          rc_sig = ''ed25519:mock_sig_'' @ take 32 (hexdigest (encode (gid @ content_sha))),
          rc_ts = isoformat (clk t), rc_epoch = epoch,
          rc_merkle_root = merkle_root, rc_merkle_path = None,
          rc_anchors_json = json_dumps (JList [JStr ''ipfs:QmDemo123''])\<rparr>)"

definition add_receipt ::
  "clock \<Rightarrow> string \<Rightarrow> string \<Rightarrow> page \<Rightarrow> 'g capsule \<Rightarrow> error + 'g capsule" where
  "add_receipt clk epoch merkle_root p s =
     map_sum id (\<lambda>tbl. s\<lparr>glyph_receipts := tbl, tick := tick s + 1\<rparr>)
       (insert_row rc_gid (receipt_row_of clk (tick s) epoch merkle_root p) (glyph_receipts s))"

definition add_receipts :: "clock \<Rightarrow> 'g capsule \<Rightarrow> error + 'g capsule" where
  "add_receipts clk s =
     for_each (add_receipt clk (isoformat (clk (tick s))) (hexdigest ''checkpoint_demo''))
       PAGES (s\<lparr>tick := tick s + 1\<rparr>)"

subsection \<open>The whole run\<close>

text \<open>
  The statements of \<^verbatim>\<open>create_capsule\<close> that write rows, in the order of the source. The
  \<^verbatim>\<open>CREATE TABLE\<close>, \<^verbatim>\<open>CREATE INDEX\<close> and \<^verbatim>\<open>CREATE VIEW\<close> statements declare the columns and keys
  modelled above; the virtual table \<^verbatim>\<open>meta_fts\<close> is a copy of four columns of
  \<^verbatim>\<open>meta_index\<close> and is left out, as are the \<^verbatim>\<open>print\<close> calls.
\<close>

definition create_capsule ::
  "('g, 'f) py_random \<Rightarrow> clock \<Rightarrow> 'g \<Rightarrow> error + 'g capsule" where
  "create_capsule L clk g =
     for_each (\<lambda>step. step)
       [for_each (add_page_image clk) PAGES,
        add_ledger_file clk,
        add_ledger_block clk,
        add_checkpoint clk,
        add_key clk,
        for_each add_node PAGES,
        for_each (add_edge clk) EDGES,
        for_each (add_meta clk) PAGES,
        for_each add_page_entities PAGES,
        for_each (add_leann_meta clk) PAGES,
        for_each (add_leann_vec L clk) PAGES,
        for_each add_neighbor EDGES,
        add_receipts clk]
       (empty_capsule g)"

section \<open>Definitions for the statements\<close>

text \<open>A word of exactly 32 bits.\<close>

definition w32 :: "u32 \<Rightarrow> bool" where
  "w32 x = (length x = 32)"

text \<open>
  The length of a list, counted into a numeral: the simplifier evaluates it on a long
  literal without building a tower of \<open>Suc\<close>.
\<close>

fun len_acc :: "'a list \<Rightarrow> nat \<Rightarrow> nat" where
  "len_acc [] n = n"
| "len_acc (x # xs) n = len_acc xs (n + 1)"

text \<open>
  The seed \<^verbatim>\<open>mock_vector_384d\<close> gives to \<^verbatim>\<open>random.seed\<close>, the vector it returns and the state
  it leaves the generator in. \<open>int_of_hex\<close> never fails on a digest (lemma
  \<open>int_of_hex_seed\<close> below), so the default 0 is never taken.
\<close>

definition text_seed :: "string \<Rightarrow> int" where
  "text_seed text =
     (case int_of_hex (take 8 (hexdigest (encode text))) of Inr n \<Rightarrow> n | Inl e \<Rightarrow> 0)"

definition embedding :: "('g, 'f) py_random \<Rightarrow> string \<Rightarrow> bytes" where
  "embedding L text = concat (map (pack_f L) (fst (draws L 384 (rnd_seed L (text_seed text)))))"

definition rng_after :: "('g, 'f) py_random \<Rightarrow> string \<Rightarrow> 'g" where
  "rng_after L text = snd (draws L 384 (rnd_seed L (text_seed text)))"

text \<open>
  The tables a run ends with, in closed form: each row with the number of the clock reading
  it was built at. Lemma \<open>create_capsule_run\<close> below proves that \<open>create_capsule\<close> returns
  exactly this state.
\<close>

definition final_capsule :: "('g, 'f) py_random \<Rightarrow> clock \<Rightarrow> 'g capsule" where
  "final_capsule L clk =
     \<lparr>sqlar = map2 (image_row clk) [0..7] PAGES @ [ledger_file_row clk 8],
      ledger_blocks = [ledger_block_row clk 10],
      checkpoints = [checkpoint_row clk 11],
      keys = [key_row_of clk 13],
      node_index = map2 node_row_of [1..8] PAGES,
      edges = map2 (edge_row_of clk) [14..24] EDGES,
      meta_index = map2 (meta_row_of clk) [25..32] PAGES,
      entities_table =
        concat (map (\<lambda>p. map (entity_row_of (gid_of (page_no p))) (entities p)) PAGES),
      leann_meta = map2 (leann_meta_row_of clk) [33..40] PAGES,
      leann_vec =
        map2 (\<lambda>t p. leann_vec_row_of clk t p (embedding L (full_text p))) [41..48] PAGES,
      leann_neighbors = map neighbor_row_of EDGES,
      glyph_receipts =
        map2 (\<lambda>t. receipt_row_of clk t (isoformat (clk 49)) (hexdigest ''checkpoint_demo''))
          [50..57] PAGES,
      tick = 58,
      rng = rng_after L (full_text page_8)\<rparr>"

text \<open>
  Concrete parameters for the closed statements: a clock that advances by one microsecond
  from one reading to the next, and a stand-in for the random generator (a linear
  congruential one over integers, packing \<open>-1\<close> and \<open>1\<close> as the floats they are).
\<close>

definition demo_clock :: clock where
  "demo_clock k =
     \<lparr>isoformat = ''2025-01-01T00:00:00.'' @ zfill 6 (dec (nat k)) @ ''+00:00'',
      timestamp = 1735689600\<rparr>"

definition demo_random :: "(int, int) py_random" where
  "demo_random =
     \<lparr>rnd_seed = (\<lambda>n. n),
      rnd_uniform = (\<lambda>g. (g mod 3 - 1, (1103515245 * g + 12345) mod 2147483648)),
      pack_f = (\<lambda>x. [CHR 0x00, CHR 0x00, CHR 0x80, if x < 0 then CHR 0xbf else CHR 0x3f])\<rparr>"

text \<open>
  The hash the specification gives for a block id, in its words:
  \<^verbatim>\<open>block_id = hash(prev_block_id || serialize(operations) || timestamp || signer)\<close>, with
  SHA-256, the one hash function of the script, and the serialisation the block stores.
\<close>

definition spec_block_hash :: "ledger_block \<Rightarrow> string" where
  "spec_block_hash b =
     hexdigest (encode (blk_prev b @ blk_entries_json b @ blk_ts b @ blk_signer b))"

text \<open>
  The merkle root the specification gives for a checkpoint, in its words: over the content
  hashes of all current items, leaves sorted by gid. Two neighbours hash to the SHA-256 of
  their concatenated hex digests; a node without a neighbour moves up unchanged.
\<close>

fun merkle_level :: "string list \<Rightarrow> string list" where
  "merkle_level (l # r # rest) = hexdigest (encode (l @ r)) # merkle_level rest"
| "merkle_level xs = xs"

function merkle_root :: "string list \<Rightarrow> string" where
  "merkle_root [] = hexdigest []"
| "merkle_root [x] = x"
| "merkle_root (x # y # r) = merkle_root (merkle_level (x # y # r))"
  by pat_completeness auto
termination
proof (relation "measure length")
  show "wf (measure length)" by simp
next
  fix x y :: string and r :: "string list"
  have "length (merkle_level xs) \<le> length xs" for xs
    by (induction xs rule: merkle_level.induct) simp_all
  then have "length (merkle_level r) \<le> length r" .
  then show "(merkle_level (x # y # r), x # y # r) \<in> measure length" by simp
qed

definition spec_checkpoint_root :: "'g capsule \<Rightarrow> string" where
  "spec_checkpoint_root s = merkle_root (map lm_content_sha (sort_key lm_gid (leann_meta s)))"

text \<open>
  The gid that \<^verbatim>\<open>node_index\<close> gives a page number, and what it is for a neighbour hint to be
  the hint of an edge: the edge's end points map to the hint's gids, its weight is the
  score, and its predicate after \<^verbatim>\<open>graph-\<close> is the reason.
\<close>

definition page_gid :: "'g capsule \<Rightarrow> int \<Rightarrow> string option" where
  "page_gid s n = map_of (map (\<lambda>r. (node_page_no r, node_gid r)) (node_index s)) n"

definition hint_of_edge :: "'g capsule \<Rightarrow> edge_row \<Rightarrow> neighbor_row \<Rightarrow> bool" where
  "hint_of_edge s e n \<longleftrightarrow>
     page_gid s (fromNode e) = Some (nb_gid n) \<and> page_gid s (toNode e) = Some (nb_neighbor n)
     \<and> weight e = nb_score n \<and> ''graph-'' @ pred e = nb_reason n"

section \<open>The digest has 64 hexadecimal digits\<close>

lemma length_xor32: "length (xor32 x y) = min (length x) (length y)"
  by (induction x y rule: xor32.induct) simp_all

lemma length_and32: "length (and32 x y) = min (length x) (length y)"
  by (induction x y rule: and32.induct) simp_all

lemma length_not32: "length (not32 x) = length x"
  by (simp add: not32_def)

lemma length_add_carry: "length (add_carry c x y) = min (length x) (length y)"
  by (induction c x y rule: add_carry.induct) simp_all

lemma length_add32: "length (add32 x y) = min (length x) (length y)"
  by (simp add: add32_def length_add_carry)

lemma length_rotr: "length (rotr n x) = length x"
  by (simp add: rotr_def)

lemma length_shr: "n \<le> length x \<Longrightarrow> length (shr n x) = length x"
  by (simp add: shr_def)

lemmas word_lengths = length_xor32 length_and32 length_not32 length_add32 length_rotr length_shr
  bsig0_def bsig1_def ssig0_def ssig1_def ch_def maj_def

lemma sched_w32: "list_all w32 w \<Longrightarrow> list_all w32 (sched fuel w)"
  by (induction fuel w rule: sched.induct) (simp_all add: w32_def word_lengths)

lemma round_step_length: "length (round_step hs kw) = length hs"
  by (cases "(hs, kw)" rule: round_step.cases) simp_all

lemma round_step_w32:
  "list_all w32 hs \<Longrightarrow> w32 (fst kw) \<Longrightarrow> w32 (snd kw) \<Longrightarrow> list_all w32 (round_step hs kw)"
  by (cases "(hs, kw)" rule: round_step.cases) (simp_all add: w32_def word_lengths)

lemma rounds_w32:
  "list_all w32 hs \<Longrightarrow> list_all (\<lambda>kw. w32 (fst kw) \<and> w32 (snd kw)) kws \<Longrightarrow>
     list_all w32 (foldl round_step hs kws) \<and> length (foldl round_step hs kws) = length hs"
  by (induction kws arbitrary: hs) (simp_all add: round_step_w32 round_step_length)

lemma zip_w32:
  "list_all w32 ks \<Longrightarrow> list_all w32 ws \<Longrightarrow>
     list_all (\<lambda>kw. w32 (fst kw) \<and> w32 (snd kw)) (zip ks ws)"
  by (auto simp: list_all_iff dest: set_zip_leftD set_zip_rightD)

lemma map2_add32_w32:
  "list_all w32 xs \<Longrightarrow> list_all w32 ys \<Longrightarrow> list_all w32 (map2 add32 xs ys)"
  by (auto simp: list_all_iff w32_def length_add32 elim!: in_set_zipE)

lemma compress_w32:
  assumes "list_all w32 ks" "list_all w32 hs" "list_all w32 blk"
  shows "list_all w32 (compress ks hs blk) \<and> length (compress ks hs blk) = length hs"
proof -
  have d: "list_all w32 (drop 16 ks)"
    using assms(1) by (auto simp: list_all_iff dest: in_set_dropD)
  have kws: "list_all (\<lambda>kw. w32 (fst kw) \<and> w32 (snd kw)) (zip ks (sched (drop 16 ks) blk))"
    by (rule zip_w32 [OF assms(1) sched_w32 [OF assms(3)]])
  from rounds_w32 [OF assms(2) kws] show ?thesis
    by (simp add: compress_def map2_add32_w32 assms(2))
qed

lemma length_hex_bits: "length (hex_bits c) = 4"
  by (simp add: hex_bits_def)

lemma length_u32_of_hex: "length (u32_of_hex s) = 4 * length s"
  by (induction s rule: rev_induct) (simp_all add: u32_of_hex_def length_hex_bits)

lemma sha_K_w32: "list_all w32 sha_K"
  by (simp add: sha_K_def w32_def length_u32_of_hex)

lemma sha_H0_w32: "list_all w32 sha_H0 \<and> length sha_H0 = 8"
  by (simp add: sha_H0_def w32_def length_u32_of_hex)

lemma length_byte_bits: "length (byte_bits c) = 8"
  by (cases c) simp

lemma be_words_w32: "list_all w32 (be_words bs)"
  by (induction bs rule: be_words.induct) (simp_all add: w32_def be_word_def length_byte_bits)

lemma length_to_bits: "length (to_bits k n) = k"
  by (induction k arbitrary: n) simp_all

lemma pad_words_w32: "list_all w32 (pad_words m n)"
  by (simp add: pad_words_def be_words_w32 w32_def length_to_bits)

lemma blocks16_w32: "list_all w32 ws \<Longrightarrow> list_all (list_all w32) (blocks16 ws)"
  by (induction ws rule: blocks16.induct) simp_all

lemma blocks_w32:
  "list_all w32 hs \<Longrightarrow> list_all (list_all w32) blks \<Longrightarrow>
     list_all w32 (foldl (compress sha_K) hs blks)
     \<and> length (foldl (compress sha_K) hs blks) = length hs"
  by (induction blks arbitrary: hs) (simp_all add: compress_w32 sha_K_w32)

lemma sha256_w32: "list_all w32 (sha256 m) \<and> length (sha256 m) = 8"
  using blocks_w32 [of sha_H0 "blocks16 (sha_words m)"]
  by (simp add: sha256_def sha_words_def sha_H0_w32 blocks16_w32 pad_words_w32)

lemma length_nibbles: "length (nibbles w) = length w div 4"
  by (induction w rule: nibbles.induct) simp_all

lemma length_hex_words:
  "list_all w32 ws \<Longrightarrow> length (concat (map (\<lambda>w. map hex_digit (nibbles w)) ws)) = 8 * length ws"
  by (induction ws) (simp_all add: w32_def length_nibbles)

lemma length_hexdigest: "length (hexdigest m) = 64"
  using sha256_w32 [of m] by (simp add: hexdigest_def length_hex_words)

lemma nibbles_bound: "list_all (\<lambda>n. n < 16) (nibbles w)"
  by (induction w rule: nibbles.induct) (simp_all add: of_bool_def)

lemma hex_value_hex_digit: "n < 16 \<Longrightarrow> hex_value (hex_digit n) = Some n"
proof -
  assume "n < 16"
  then have "n \<in> set [0..<16]" by simp
  moreover have "list_all (\<lambda>k. hex_value (hex_digit k) = Some k) [0..<16]"
    by (simp add: upt_rec hex_digit_def hex_value_def)
  ultimately show ?thesis
    by (simp only: list_all_iff)
qed

lemma hexdigest_hex: "list_all (\<lambda>c. hex_value c \<noteq> None) (hexdigest m)"
proof -
  have "list_all (\<lambda>c. hex_value c \<noteq> None) (map hex_digit (nibbles w))" for w
    using nibbles_bound [of w] by (auto simp: list_all_iff hex_value_hex_digit)
  then show ?thesis
    by (simp add: hexdigest_def list_all_iff)
qed

lemma int_of_hex_acc_Inr:
  "list_all (\<lambda>c. hex_value c \<noteq> None) s \<Longrightarrow> \<exists>v. int_of_hex_acc s a = Inr v"
  by (induction s arbitrary: a) auto

lemma int_of_hex_digest: "\<exists>v. int_of_hex (take 8 (hexdigest m)) = Inr v"
proof -
  have ne: "take 8 (hexdigest m) \<noteq> []"
    using length_hexdigest [of m] by auto
  have "list_all (\<lambda>c. hex_value c \<noteq> None) (take 8 (hexdigest m))"
    using hexdigest_hex [of m] by (auto simp: list_all_iff dest: in_set_takeD)
  from int_of_hex_acc_Inr [OF this] ne show ?thesis
    by (simp add: int_of_hex_def)
qed

lemma int_of_hex_seed: "int_of_hex (take 8 (hexdigest (encode text))) = Inr (text_seed text)"
  using int_of_hex_digest [of "encode text"] by (auto simp: text_seed_def)

lemma mock_vector_384d_eq:
  "mock_vector_384d L text g = Inr (embedding L text, rng_after L text)"
  by (simp add: mock_vector_384d_def int_of_hex_seed Let_def embedding_def rng_after_def)

lemma length_draws: "length (fst (draws L n g)) = n"
  by (induction n arbitrary: g) (simp_all add: Let_def)

lemma length_packed:
  "(\<forall>x. length (pack_f L x) = 4) \<Longrightarrow> length (concat (map (pack_f L) xs)) = 4 * length xs"
  by (induction xs) simp_all

section \<open>The tables of a run\<close>

lemma replicate_numeral_eval: "replicate (numeral k) x = x # replicate (pred_numeral k) x"
  by (simp add: numeral_eq_Suc)

lemma page_nos:
  "page_no page_1 = 1" "page_no page_2 = 2" "page_no page_3 = 3" "page_no page_4 = 4"
  "page_no page_5 = 5" "page_no page_6 = 6" "page_no page_7 = 7" "page_no page_8 = 8"
  by (simp_all add: page_1_def page_2_def page_3_def page_4_def page_5_def page_6_def
      page_7_def page_8_def)

lemma row_keys:
  "ar_name (image_row clk t p) = ''glyphs/page_'' @ format_04d (page_no p) @ ''.mgx.png''"
  "ar_name (ledger_file_row clk t) = ''ledger/ledger.log''"
  "blk_block_id (ledger_block_row clk t) = ''b001''"
  "cp_epoch (checkpoint_row clk t) = isoformat (clk t)"
  "key_id (key_row_of clk t) = ''key001''"
  "node_gid (node_row_of n p) = gid_of (page_no p)"
  "fromNode (edge_row_of clk t (a, b, c, w)) = a"
  "toNode (edge_row_of clk t (a, b, c, w)) = b"
  "pred (edge_row_of clk t (a, b, c, w)) = c"
  "meta_gid (meta_row_of clk t p) = gid_of (page_no p)"
  "ent_gid (entity_row_of gid (et, ex, nv)) = gid"
  "entity_type (entity_row_of gid (et, ex, nv)) = et"
  "entity_text (entity_row_of gid (et, ex, nv)) = ex"
  "lm_gid (leann_meta_row_of clk t p) = gid_of (page_no p)"
  "lm_model_id (leann_meta_row_of clk t p) = model_id"
  "lv_gid (leann_vec_row_of clk t p v) = gid_of (page_no p)"
  "lv_model_id (leann_vec_row_of clk t p v) = model_id"
  "nb_gid (neighbor_row_of (a, b, c, w)) = gid_of a"
  "nb_neighbor (neighbor_row_of (a, b, c, w)) = gid_of b"
  "rc_gid (receipt_row_of clk t ep mr p) = gid_of (page_no p)"
  by (simp_all add: image_row_def ledger_file_row_def ledger_block_row_def checkpoint_row_def
      key_row_of_def node_row_of_def edge_row_of_def meta_row_of_def entity_row_of_def
      leann_meta_row_of_def leann_vec_row_of_def neighbor_row_of_def receipt_row_of_def Let_def)

lemma gid_of_eq: "gid_of a = gid_of b \<longleftrightarrow> str_int a = str_int b"
  by (simp add: gid_of_def)

lemma page_entities:
  "entities page_1 = [(''TECH'', ''MemGlyph'', ''MemGlyph''), (''TECH'', ''hybrid search'', ''hybrid search'')]"
  "entities page_2 = [(''TECH'', ''LEANN'', ''LEANN''), (''PERCENT'', ''98.5%'', ''0.985''), (''TECH'', ''semantic search'', ''semantic search'')]"
  "entities page_3 = [(''TECH'', ''GlyphCase'', ''GlyphCase''), (''TECH'', ''SQLite'', ''SQLite''), (''TECH'', ''SQLAR'', ''SQLAR'')]"
  "entities page_4 = [(''TECH'', ''FTS5'', ''FTS5''), (''TECH'', ''BM25'', ''BM25''), (''TECH'', ''SQLite'', ''SQLite'')]"
  "entities page_5 = [(''TECH'', ''LangExtract'', ''Google LangExtract''), (''ORG'', ''Google'', ''Google LLC''), (''TECH'', ''Wikidata'', ''Wikidata'')]"
  "entities page_6 = [(''TECH'', ''BFS'', ''breadth-first search''), (''TECH'', ''graph traversal'', ''graph traversal'')]"
  "entities page_7 = [(''PERCENT'', ''35%'', ''0.35''), (''PERCENT'', ''40%'', ''0.40''), (''PERCENT'', ''25%'', ''0.25''), (''TECH'', ''hybrid retrieval'', ''hybrid retrieval'')]"
  "entities page_8 = [(''TECH'', ''SHA256'', ''SHA-256''), (''TECH'', ''Merkle'', ''Merkle tree''), (''TECH'', ''Ed25519'', ''Ed25519''), (''TECH'', ''Ethereum'', ''Ethereum''), (''TECH'', ''IPFS'', ''IPFS'')]"
  by (simp_all add: page_1_def page_2_def page_3_def page_4_def page_5_def page_6_def
      page_7_def page_8_def)

lemmas step_defs = add_page_image_def add_ledger_file_def add_ledger_block_def add_checkpoint_def
  add_key_def add_node_def add_edge_def add_meta_def add_entity_def add_page_entities_def
  add_leann_meta_def add_leann_vec_def add_neighbor_def add_receipt_def add_receipts_def

lemmas eff_eval = step_defs PAGES_def EDGES_def insert_row_def insert_or_ignore_def row_keys
  page_nos gid_of_eq str_int_def dec.simps digit_char_def format_04d_def zfill_def
  replicate_numeral_eval mock_vector_384d_eq

lemma images_effect:
  "sqlar s = [] \<Longrightarrow>
   for_each (add_page_image clk) PAGES s =
     Inr (s\<lparr>sqlar := [image_row clk (tick s) page_1,
                   image_row clk (tick s + 1) page_2,
                   image_row clk (tick s + 2) page_3,
                   image_row clk (tick s + 3) page_4,
                   image_row clk (tick s + 4) page_5,
                   image_row clk (tick s + 5) page_6,
                   image_row clk (tick s + 6) page_7,
                   image_row clk (tick s + 7) page_8],
        tick := tick s + 8\<rparr>)"
  by (simp add: eff_eval add.commute)

lemma nodes_effect:
  "node_index s = [] \<Longrightarrow>
   for_each add_node PAGES s =
     Inr (s\<lparr>node_index := [node_row_of 1 page_1,
                        node_row_of 2 page_2,
                        node_row_of 3 page_3,
                        node_row_of 4 page_4,
                        node_row_of 5 page_5,
                        node_row_of 6 page_6,
                        node_row_of 7 page_7,
                        node_row_of 8 page_8]\<rparr>)"
  by (simp add: eff_eval add.commute)

lemma edges_effect:
  "edges s = [] \<Longrightarrow>
   for_each (add_edge clk) EDGES s =
     Inr (s\<lparr>edges := [edge_row_of clk (tick s) (1, 2, ''cites'', 0.9),
                   edge_row_of clk (tick s + 1) (1, 3, ''cites'', 0.85),
                   edge_row_of clk (tick s + 2) (1, 7, ''part_of'', 1.0),
                   edge_row_of clk (tick s + 3) (2, 7, ''cites'', 0.8),
                   edge_row_of clk (tick s + 4) (3, 4, ''cites'', 0.75),
                   edge_row_of clk (tick s + 5) (4, 7, ''cites'', 0.9),
                   edge_row_of clk (tick s + 6) (5, 7, ''cites'', 0.85),
                   edge_row_of clk (tick s + 7) (6, 7, ''cites'', 0.8),
                   edge_row_of clk (tick s + 8) (7, 2, ''cites'', 0.9),
                   edge_row_of clk (tick s + 9) (7, 4, ''cites'', 0.85),
                   edge_row_of clk (tick s + 10) (8, 1, ''part_of'', 0.95)],
        tick := tick s + 11\<rparr>)"
  by (simp add: eff_eval add.commute)

lemma meta_effect:
  "meta_index s = [] \<Longrightarrow>
   for_each (add_meta clk) PAGES s =
     Inr (s\<lparr>meta_index := [meta_row_of clk (tick s) page_1,
                        meta_row_of clk (tick s + 1) page_2,
                        meta_row_of clk (tick s + 2) page_3,
                        meta_row_of clk (tick s + 3) page_4,
                        meta_row_of clk (tick s + 4) page_5,
                        meta_row_of clk (tick s + 5) page_6,
                        meta_row_of clk (tick s + 6) page_7,
                        meta_row_of clk (tick s + 7) page_8],
        tick := tick s + 8\<rparr>)"
  by (simp add: eff_eval add.commute)

lemma entities_effect:
  "entities_table s = [] \<Longrightarrow>
   for_each add_page_entities PAGES s =
     Inr (s\<lparr>entities_table := [entity_row_of (gid_of 1) (''TECH'', ''MemGlyph'', ''MemGlyph''),
                            entity_row_of (gid_of 1) (''TECH'', ''hybrid search'', ''hybrid search''),
                            entity_row_of (gid_of 2) (''TECH'', ''LEANN'', ''LEANN''),
                            entity_row_of (gid_of 2) (''PERCENT'', ''98.5%'', ''0.985''),
                            entity_row_of (gid_of 2) (''TECH'', ''semantic search'', ''semantic search''),
                            entity_row_of (gid_of 3) (''TECH'', ''GlyphCase'', ''GlyphCase''),
                            entity_row_of (gid_of 3) (''TECH'', ''SQLite'', ''SQLite''),
                            entity_row_of (gid_of 3) (''TECH'', ''SQLAR'', ''SQLAR''),
                            entity_row_of (gid_of 4) (''TECH'', ''FTS5'', ''FTS5''),
                            entity_row_of (gid_of 4) (''TECH'', ''BM25'', ''BM25''),
                            entity_row_of (gid_of 4) (''TECH'', ''SQLite'', ''SQLite''),
                            entity_row_of (gid_of 5) (''TECH'', ''LangExtract'', ''Google LangExtract''),
                            entity_row_of (gid_of 5) (''ORG'', ''Google'', ''Google LLC''),
                            entity_row_of (gid_of 5) (''TECH'', ''Wikidata'', ''Wikidata''),
                            entity_row_of (gid_of 6) (''TECH'', ''BFS'', ''breadth-first search''),
                            entity_row_of (gid_of 6) (''TECH'', ''graph traversal'', ''graph traversal''),
                            entity_row_of (gid_of 7) (''PERCENT'', ''35%'', ''0.35''),
                            entity_row_of (gid_of 7) (''PERCENT'', ''40%'', ''0.40''),
                            entity_row_of (gid_of 7) (''PERCENT'', ''25%'', ''0.25''),
                            entity_row_of (gid_of 7) (''TECH'', ''hybrid retrieval'', ''hybrid retrieval''),
                            entity_row_of (gid_of 8) (''TECH'', ''SHA256'', ''SHA-256''),
                            entity_row_of (gid_of 8) (''TECH'', ''Merkle'', ''Merkle tree''),
                            entity_row_of (gid_of 8) (''TECH'', ''Ed25519'', ''Ed25519''),
                            entity_row_of (gid_of 8) (''TECH'', ''Ethereum'', ''Ethereum''),
                            entity_row_of (gid_of 8) (''TECH'', ''IPFS'', ''IPFS'')]\<rparr>)"
  by (simp add: eff_eval page_entities add.commute)

lemma leann_meta_effect:
  "leann_meta s = [] \<Longrightarrow>
   for_each (add_leann_meta clk) PAGES s =
     Inr (s\<lparr>leann_meta := [leann_meta_row_of clk (tick s) page_1,
                        leann_meta_row_of clk (tick s + 1) page_2,
                        leann_meta_row_of clk (tick s + 2) page_3,
                        leann_meta_row_of clk (tick s + 3) page_4,
                        leann_meta_row_of clk (tick s + 4) page_5,
                        leann_meta_row_of clk (tick s + 5) page_6,
                        leann_meta_row_of clk (tick s + 6) page_7,
                        leann_meta_row_of clk (tick s + 7) page_8],
        tick := tick s + 8\<rparr>)"
  by (simp add: eff_eval add.commute)

lemma leann_vec_effect:
  "leann_vec s = [] \<Longrightarrow>
   for_each (add_leann_vec L clk) PAGES s =
     Inr (s\<lparr>leann_vec := [leann_vec_row_of clk (tick s) page_1 (embedding L (full_text page_1)),
                       leann_vec_row_of clk (tick s + 1) page_2 (embedding L (full_text page_2)),
                       leann_vec_row_of clk (tick s + 2) page_3 (embedding L (full_text page_3)),
                       leann_vec_row_of clk (tick s + 3) page_4 (embedding L (full_text page_4)),
                       leann_vec_row_of clk (tick s + 4) page_5 (embedding L (full_text page_5)),
                       leann_vec_row_of clk (tick s + 5) page_6 (embedding L (full_text page_6)),
                       leann_vec_row_of clk (tick s + 6) page_7 (embedding L (full_text page_7)),
                       leann_vec_row_of clk (tick s + 7) page_8 (embedding L (full_text page_8))],
        tick := tick s + 8, rng := rng_after L (full_text page_8)\<rparr>)"
  by (simp add: eff_eval add.commute)

lemma neighbors_effect:
  "leann_neighbors s = [] \<Longrightarrow>
   for_each add_neighbor EDGES s =
     Inr (s\<lparr>leann_neighbors := [neighbor_row_of (1, 2, ''cites'', 0.9),
                             neighbor_row_of (1, 3, ''cites'', 0.85),
                             neighbor_row_of (1, 7, ''part_of'', 1.0),
                             neighbor_row_of (2, 7, ''cites'', 0.8),
                             neighbor_row_of (3, 4, ''cites'', 0.75),
                             neighbor_row_of (4, 7, ''cites'', 0.9),
                             neighbor_row_of (5, 7, ''cites'', 0.85),
                             neighbor_row_of (6, 7, ''cites'', 0.8),
                             neighbor_row_of (7, 2, ''cites'', 0.9),
                             neighbor_row_of (7, 4, ''cites'', 0.85),
                             neighbor_row_of (8, 1, ''part_of'', 0.95)]\<rparr>)"
  by (simp add: eff_eval add.commute)

lemma receipts_effect:
  "glyph_receipts s = [] \<Longrightarrow>
   add_receipts clk s =
     Inr (s\<lparr>glyph_receipts := [receipt_row_of clk (tick s + 1) (isoformat (clk (tick s))) (hexdigest ''checkpoint_demo'') page_1,
                            receipt_row_of clk (tick s + 2) (isoformat (clk (tick s))) (hexdigest ''checkpoint_demo'') page_2,
                            receipt_row_of clk (tick s + 3) (isoformat (clk (tick s))) (hexdigest ''checkpoint_demo'') page_3,
                            receipt_row_of clk (tick s + 4) (isoformat (clk (tick s))) (hexdigest ''checkpoint_demo'') page_4,
                            receipt_row_of clk (tick s + 5) (isoformat (clk (tick s))) (hexdigest ''checkpoint_demo'') page_5,
                            receipt_row_of clk (tick s + 6) (isoformat (clk (tick s))) (hexdigest ''checkpoint_demo'') page_6,
                            receipt_row_of clk (tick s + 7) (isoformat (clk (tick s))) (hexdigest ''checkpoint_demo'') page_7,
                            receipt_row_of clk (tick s + 8) (isoformat (clk (tick s))) (hexdigest ''checkpoint_demo'') page_8],
        tick := tick s + 9\<rparr>)"
  by (simp add: eff_eval add.commute)

lemmas effects = images_effect nodes_effect edges_effect meta_effect entities_effect
  leann_meta_effect leann_vec_effect neighbors_effect receipts_effect

lemma create_capsule_run: "create_capsule L clk g = Inr (final_capsule L clk)"
  unfolding create_capsule_def final_capsule_def
  by (simp add: effects empty_capsule_def add_ledger_file_def add_ledger_block_def
        add_checkpoint_def add_key_def insert_row_def row_keys page_nos format_04d_def zfill_def
        dec.simps digit_char_def replicate_numeral_eval,
      simp add: PAGES_def EDGES_def page_nos page_entities upto.simps)

section \<open>The claims\<close>

lemma run_tables:
  "sqlar (final_capsule L clk) = map2 (image_row clk) [0..7] PAGES @ [ledger_file_row clk 8]"
  "ledger_blocks (final_capsule L clk) = [ledger_block_row clk 10]"
  "checkpoints (final_capsule L clk) = [checkpoint_row clk 11]"
  "node_index (final_capsule L clk) = map2 node_row_of [1..8] PAGES"
  "edges (final_capsule L clk) = map2 (edge_row_of clk) [14..24] EDGES"
  "meta_index (final_capsule L clk) = map2 (meta_row_of clk) [25..32] PAGES"
  "entities_table (final_capsule L clk) =
     concat (map (\<lambda>p. map (entity_row_of (gid_of (page_no p))) (entities p)) PAGES)"
  "leann_meta (final_capsule L clk) = map2 (leann_meta_row_of clk) [33..40] PAGES"
  "leann_vec (final_capsule L clk) =
     map2 (\<lambda>t p. leann_vec_row_of clk t p (embedding L (full_text p))) [41..48] PAGES"
  "leann_neighbors (final_capsule L clk) = map neighbor_row_of EDGES"
  "glyph_receipts (final_capsule L clk) =
     map2 (\<lambda>t. receipt_row_of clk t (isoformat (clk 49)) (hexdigest ''checkpoint_demo''))
       [50..57] PAGES"
  by (simp_all add: final_capsule_def)

lemmas table_eval = run_tables PAGES_def EDGES_def upto.simps

text \<open>
  Claim C9. Every row written to \<^verbatim>\<open>sqlar\<close> stores in \<^verbatim>\<open>sz\<close> the number of bytes of its
  \<^verbatim>\<open>data\<close> blob: the run succeeds, and the property holds of each row of the table.
\<close>

theorem sqlar_sz_is_length:
  "\<exists>s. create_capsule L clk g = Inr s \<and> list_all (\<lambda>r. ar_sz r = int (length (ar_data r))) (sqlar s)"
  by (simp add: create_capsule_run table_eval image_row_def ledger_file_row_def Let_def)

text \<open>
  Claim C5. Every edge inserted into \<^verbatim>\<open>edges\<close> has a weight in the closed interval from 0
  to 1, and no two rows share a triple (fromNode, toNode, pred). The weights are the decimal
  literals of \<^verbatim>\<open>EDGES\<close>; rounding one to the nearest double keeps it between 0 and 1, which
  are doubles themselves.
\<close>

theorem edges_weight_and_key:
  "\<exists>s. create_capsule L clk g = Inr s
     \<and> list_all (\<lambda>e. 0 \<le> weight e \<and> weight e \<le> 1) (edges s)
     \<and> distinct (map (\<lambda>e. (fromNode e, toNode e, pred e)) (edges s))"
  by (simp add: create_capsule_run table_eval edge_row_of_def)

text \<open>
  Claim C7. The names of the rows of \<^verbatim>\<open>sqlar\<close> are, in order, one
  \<^verbatim>\<open>glyphs/page_{page_no:04d}.mgx.png\<close> for each page, the page number padded with zeros to
  four digits, and then \<^verbatim>\<open>ledger/ledger.log\<close>; the names are pairwise different.
\<close>

theorem sqlar_names:
  "\<exists>s. create_capsule L clk g = Inr s
     \<and> map ar_name (sqlar s) =
         map (\<lambda>p. ''glyphs/page_'' @ format_04d (page_no p) @ ''.mgx.png'') PAGES
         @ [''ledger/ledger.log'']
     \<and> map (\<lambda>p. format_04d (page_no p)) PAGES =
         [''0001'', ''0002'', ''0003'', ''0004'', ''0005'', ''0006'', ''0007'', ''0008'']
     \<and> distinct (map ar_name (sqlar s))"
  by (simp add: create_capsule_run table_eval row_keys page_nos format_04d_def zfill_def
      dec.simps digit_char_def replicate_numeral_eval)

text \<open>
  Claim C10. \<^verbatim>\<open>create_mock_png\<close> returns the same bytes for every page number and title, so
  the eight page entries of the archive hold the same data, with one SHA-256 digest, under
  pairwise different names.
\<close>

theorem page_images_identical:
  "create_mock_png n t = create_mock_png n' t'
   \<and> (\<exists>s. create_capsule L clk g = Inr s
        \<and> length (filter (\<lambda>r. take 7 (ar_name r) = ''glyphs/'') (sqlar s)) = length PAGES
        \<and> list_all (\<lambda>r. ar_data r = create_mock_png n t
                         \<and> hexdigest (ar_data r) = hexdigest (create_mock_png n t))
             (filter (\<lambda>r. take 7 (ar_name r) = ''glyphs/'') (sqlar s))
        \<and> distinct (map ar_name (sqlar s)))"
proof -
  have same: "create_mock_png a b = create_mock_png c d" for a c :: int and b d :: string
    by (simp add: create_mock_png_def)
  have data: "ar_data (image_row clk k p) = create_mock_png n t" for k p
    by (simp add: image_row_def Let_def create_mock_png_def)
  show ?thesis
    by (simp add: create_capsule_run table_eval row_keys page_nos format_04d_def zfill_def
        dec.simps digit_char_def replicate_numeral_eval data same [of n t n' t'])
qed

text \<open>
  Claim C8. Every row of \<^verbatim>\<open>leann_neighbors\<close> is the hint of some edge of \<^verbatim>\<open>edges\<close>, and
  every edge has its hint among the rows: no \<^verbatim>\<open>INSERT OR IGNORE\<close> of the run drops a row.
\<close>

lemma page_gid_final:
  "page_gid (final_capsule L clk) 1 = Some (gid_of 1)"
  "page_gid (final_capsule L clk) 2 = Some (gid_of 2)"
  "page_gid (final_capsule L clk) 3 = Some (gid_of 3)"
  "page_gid (final_capsule L clk) 4 = Some (gid_of 4)"
  "page_gid (final_capsule L clk) 5 = Some (gid_of 5)"
  "page_gid (final_capsule L clk) 6 = Some (gid_of 6)"
  "page_gid (final_capsule L clk) 7 = Some (gid_of 7)"
  "page_gid (final_capsule L clk) 8 = Some (gid_of 8)"
  by (simp_all add: page_gid_def table_eval node_row_of_def page_nos)

lemma str_int_digits:
  "str_int 1 = ''1''" "str_int 2 = ''2''" "str_int 3 = ''3''" "str_int 4 = ''4''"
  "str_int 5 = ''5''" "str_int 6 = ''6''" "str_int 7 = ''7''" "str_int 8 = ''8''"
  by (simp_all add: str_int_def dec.simps digit_char_def)

theorem neighbors_from_edges:
  "\<exists>s. create_capsule L clk g = Inr s
     \<and> list_all (\<lambda>n. list_ex (\<lambda>e. hint_of_edge s e n) (edges s)) (leann_neighbors s)
     \<and> list_all (\<lambda>e. list_ex (\<lambda>n. hint_of_edge s e n) (leann_neighbors s)) (edges s)"
  by (simp add: create_capsule_run hint_of_edge_def page_gid_final table_eval edge_row_of_def
      neighbor_row_of_def gid_of_eq str_int_digits)

text \<open>
  Claim C6. In \<^verbatim>\<open>node_index\<close>, \<^verbatim>\<open>meta_index\<close> and \<^verbatim>\<open>leann_meta\<close> the gid of a row is its
  document id, \<^verbatim>\<open>#p\<close>, and its page number in decimal; in \<^verbatim>\<open>entities\<close>, \<^verbatim>\<open>leann_vec\<close> and
  \<^verbatim>\<open>glyph_receipts\<close>, which have no page column, it is the gid of one of the pages. In each
  table the key columns (the gid, with the entity's type and text, or with the model id)
  are pairwise different.
\<close>

lemma gids_node_index:
  "list_all (\<lambda>r. node_gid r = node_doc_id r @ ''#p'' @ str_int (node_page_no r))
     (node_index (final_capsule L clk))
   \<and> distinct (map node_gid (node_index (final_capsule L clk)))"
  by (simp add: table_eval node_row_of_def gid_of_def page_nos str_int_digits)

lemma gids_meta_index:
  "list_all (\<lambda>r. meta_gid r = meta_doc_id r @ ''#p'' @ str_int (meta_page_no r))
     (meta_index (final_capsule L clk))
   \<and> distinct (map meta_gid (meta_index (final_capsule L clk)))"
  by (simp add: table_eval meta_row_of_def gid_of_def page_nos str_int_digits)

lemma gids_leann_meta:
  "list_all (\<lambda>r. lm_gid r = lm_doc_id r @ ''#p'' @ str_int (lm_page_no r))
     (leann_meta (final_capsule L clk))
   \<and> distinct (map (\<lambda>r. (lm_gid r, lm_model_id r)) (leann_meta (final_capsule L clk)))"
  by (simp add: table_eval leann_meta_row_of_def gid_of_def page_nos str_int_digits)

lemma gids_entities:
  "list_all (\<lambda>r. list_ex (\<lambda>p. ent_gid r = DOC_ID @ ''#p'' @ str_int (page_no p)) PAGES)
     (entities_table (final_capsule L clk))
   \<and> distinct (map (\<lambda>r. (ent_gid r, entity_type r, entity_text r))
        (entities_table (final_capsule L clk)))"
  by (simp add: table_eval entity_row_of_def gid_of_def page_nos page_entities str_int_digits)

lemma gids_leann_vec:
  "list_all (\<lambda>r. list_ex (\<lambda>p. lv_gid r = DOC_ID @ ''#p'' @ str_int (page_no p)) PAGES)
     (leann_vec (final_capsule L clk))
   \<and> distinct (map (\<lambda>r. (lv_gid r, lv_model_id r)) (leann_vec (final_capsule L clk)))"
  by (simp add: table_eval leann_vec_row_of_def gid_of_def page_nos str_int_digits)

lemma gids_receipts:
  "list_all (\<lambda>r. list_ex (\<lambda>p. rc_gid r = DOC_ID @ ''#p'' @ str_int (page_no p)) PAGES)
     (glyph_receipts (final_capsule L clk))
   \<and> distinct (map rc_gid (glyph_receipts (final_capsule L clk)))"
  by (simp add: table_eval receipt_row_of_def gid_of_def page_nos str_int_digits Let_def)

theorem gid_form_and_keys:
  "\<exists>s. create_capsule L clk g = Inr s
     \<and> (list_all (\<lambda>r. node_gid r = node_doc_id r @ ''#p'' @ str_int (node_page_no r))
          (node_index s)
        \<and> distinct (map node_gid (node_index s)))
     \<and> (list_all (\<lambda>r. meta_gid r = meta_doc_id r @ ''#p'' @ str_int (meta_page_no r))
          (meta_index s)
        \<and> distinct (map meta_gid (meta_index s)))
     \<and> (list_all (\<lambda>r. list_ex (\<lambda>p. ent_gid r = DOC_ID @ ''#p'' @ str_int (page_no p)) PAGES)
          (entities_table s)
        \<and> distinct (map (\<lambda>r. (ent_gid r, entity_type r, entity_text r)) (entities_table s)))
     \<and> (list_all (\<lambda>r. lm_gid r = lm_doc_id r @ ''#p'' @ str_int (lm_page_no r)) (leann_meta s)
        \<and> distinct (map (\<lambda>r. (lm_gid r, lm_model_id r)) (leann_meta s)))
     \<and> (list_all (\<lambda>r. list_ex (\<lambda>p. lv_gid r = DOC_ID @ ''#p'' @ str_int (page_no p)) PAGES)
          (leann_vec s)
        \<and> distinct (map (\<lambda>r. (lv_gid r, lv_model_id r)) (leann_vec s)))
     \<and> (list_all (\<lambda>r. list_ex (\<lambda>p. rc_gid r = DOC_ID @ ''#p'' @ str_int (page_no p)) PAGES)
          (glyph_receipts s)
        \<and> distinct (map rc_gid (glyph_receipts s)))"
  using gids_node_index [of L clk] gids_meta_index [of L clk] gids_entities [of L clk]
    gids_leann_meta [of L clk] gids_leann_vec [of L clk] gids_receipts [of L clk]
  by (simp only: create_capsule_run sum.inject simp_thms ex_simps)

lemma length_embedding:
  "\<forall>x. length (pack_f L x) = 4 \<Longrightarrow> length (embedding L text) = 1536"
  by (simp add: embedding_def length_packed length_draws)

text \<open>
  Claim C4. \<^verbatim>\<open>mock_vector_384d\<close> is deterministic: whatever state the global generator is
  in, two calls with the same text return the same result, because the call seeds the
  generator from the digest of the text. The result is a vector, never an error, and it has
  384 times 4 bytes, given that \<^verbatim>\<open>struct.pack('f', x)\<close> is 4 bytes long.
\<close>

theorem mock_vector_384d_deterministic:
  assumes "\<forall>x. length (pack_f L x) = 4"
  shows "mock_vector_384d L text g1 = mock_vector_384d L text g2
     \<and> (\<exists>v g'. mock_vector_384d L text g1 = Inr (v, g') \<and> length v = 1536)"
  using assms by (simp add: mock_vector_384d_eq length_embedding)

text \<open>
  Witness for claim C4: the stand-in generator packs every float into 4 bytes, and two
  calls on \<^verbatim>\<open>'MemGlyph'\<close> from the generator states 0 and 7 agree.
\<close>

theorem mock_vector_384d_deterministic_witness:
  "(\<forall>x. length (pack_f demo_random x) = 4)
   \<and> mock_vector_384d demo_random ''MemGlyph'' 0 = mock_vector_384d demo_random ''MemGlyph'' 7
   \<and> (\<exists>v g'. mock_vector_384d demo_random ''MemGlyph'' 0 = Inr (v, g') \<and> length v = 1536)"
proof -
  have h: "\<forall>x. length (pack_f demo_random x) = 4"
    by (simp add: demo_random_def)
  from mock_vector_384d_deterministic [OF h, of "''MemGlyph''" 0 7] h show ?thesis
    by blast
qed

lemma block_id_not_hash: "blk_block_id (ledger_block_row clk t) \<noteq> spec_block_hash b"
proof
  assume "blk_block_id (ledger_block_row clk t) = spec_block_hash b"
  then have "length (blk_block_id (ledger_block_row clk t)) = length (spec_block_hash b)"
    by simp
  then show False
    by (simp add: ledger_block_row_def spec_block_hash_def length_hexdigest)
qed

text \<open>
  Claim C1, as amended. The one block written into \<^verbatim>\<open>ledger_blocks\<close> has the literal
  \<^verbatim>\<open>block_id\<close> \<^verbatim>\<open>'b001'\<close>, which is not the hash of its prev, entries, timestamp and signer (a
  SHA-256 hex digest has 64 characters), and its \<^verbatim>\<open>prev\<close> is the sentinel \<^verbatim>\<open>'genesis'\<close>.
\<close>

theorem ledger_block_id_literal:
  "\<exists>s. create_capsule L clk g = Inr s
     \<and> map blk_block_id (ledger_blocks s) = [''b001'']
     \<and> map blk_prev (ledger_blocks s) = [''genesis'']
     \<and> list_all (\<lambda>b. blk_block_id b \<noteq> spec_block_hash b) (ledger_blocks s)"
  by (simp add: create_capsule_run run_tables block_id_not_hash)
     (simp add: ledger_block_row_def)

text \<open>
  Counterexample to claim C1 as stated: in the run on the demo clock the block is built at
  clock reading 10, its \<^verbatim>\<open>block_id\<close> is \<^verbatim>\<open>'b001'\<close>, and the hash of its four fields is a string
  of 64 characters, a different one.
\<close>

theorem ledger_block_id_not_hash:
  "create_capsule demo_random demo_clock 0 = Inr (final_capsule demo_random demo_clock)
   \<and> ledger_blocks (final_capsule demo_random demo_clock) = [ledger_block_row demo_clock 10]
   \<and> blk_block_id (ledger_block_row demo_clock 10) = ''b001''
   \<and> blk_ts (ledger_block_row demo_clock 10) = ''2025-01-01T00:00:00.000010+00:00''
   \<and> length (spec_block_hash (ledger_block_row demo_clock 10)) = 64
   \<and> blk_block_id (ledger_block_row demo_clock 10)
       \<noteq> spec_block_hash (ledger_block_row demo_clock 10)"
  by (simp add: create_capsule_run run_tables block_id_not_hash)
     (simp add: ledger_block_row_def spec_block_hash_def length_hexdigest demo_clock_def
        zfill_def dec.simps digit_char_def replicate_numeral_eval)

text \<open>
  The parts of claim C3 that hold on every run: each receipt has the \<^verbatim>\<open>merkle_root\<close> of the
  stored checkpoint, and \<^verbatim>\<open>glyph_receipts\<close>, \<^verbatim>\<open>leann_meta\<close> and the entries of the ledger block
  record, page by page, the same gid with the same SHA-256 digest of the page's full text.
\<close>

lemma receipts_agree:
  "\<exists>s. create_capsule L clk g = Inr s
     \<and> list_all (\<lambda>r. list_all (\<lambda>c. rc_merkle_root r = cp_merkle_root c) (checkpoints s))
          (glyph_receipts s)
     \<and> map (\<lambda>r. (rc_gid r, rc_content_sha r)) (glyph_receipts s)
         = map (\<lambda>p. (gid_of (page_no p), hexdigest (encode (full_text p)))) PAGES
     \<and> map (\<lambda>r. (lm_gid r, lm_content_sha r)) (leann_meta s)
         = map (\<lambda>p. (gid_of (page_no p), hexdigest (encode (full_text p)))) PAGES
     \<and> map blk_entries_json (ledger_blocks s)
         = [json_dumps (JList (map (\<lambda>p.
              JDict [(''op'', JStr ''ADD''),
                     (''gid'', JStr (gid_of (page_no p))),
                     (''content_sha'', JStr (hexdigest (encode (full_text p)))),
                     (''metadata'', JDict [(''title'', JStr (title p))])]) PAGES))]"
  by (simp add: create_capsule_run table_eval receipt_row_of_def leann_meta_row_of_def
      checkpoint_row_def ledger_block_row_def ledger_entries_def ledger_entry_def
      content_sha_of_def gid_of_def page_nos str_int_digits Let_def upt_rec)

text \<open>
  Claim C3 at a failing input. On the demo clock, which advances between readings as a
  real clock does, the stored checkpoint has the epoch of reading 11 and every receipt the
  epoch of reading 49: \<^verbatim>\<open>epoch\<close> is read from the clock anew before the receipts loop, not
  taken from the checkpoint, so no receipt references the epoch of the stored checkpoint.
\<close>

theorem receipt_epoch_divergence:
  "create_capsule demo_random demo_clock 0 = Inr (final_capsule demo_random demo_clock)
   \<and> map cp_epoch (checkpoints (final_capsule demo_random demo_clock))
       = [''2025-01-01T00:00:00.000011+00:00'']
   \<and> map rc_epoch (glyph_receipts (final_capsule demo_random demo_clock))
       = replicate 8 ''2025-01-01T00:00:00.000049+00:00''"
  by (simp add: create_capsule_run table_eval receipt_row_of_def checkpoint_row_def Let_def)
     (simp add: demo_clock_def zfill_def dec.simps digit_char_def replicate_numeral_eval)

end
